theory Spec2Isabelle
  imports Main
begin

section \<open>Theme store\<close>

text \<open>
  Two providers hold the theme: the inline \<open>ThemeProvider\<close> of \<open>App.js\<close> and the one of
  \<open>context/ThemeContext.jsx\<close>. Both keep one string in a \<open>useState\<close> cell, initialised
  with \<open>'light'\<close>, and both change it only through
  \<open>setTheme(prevTheme => (prevTheme === 'light' ? 'dark' : 'light'))\<close>.
  The cell is a JavaScript string, so the model keeps it a string: that the value never
  leaves \<open>{'light', 'dark'}\<close> is a property to prove, not a property of the type.
\<close>

subsection \<open>App.js\<close>

record provider =
  theme :: string

definition ThemeProvider_init :: provider where
  "ThemeProvider_init = \<lparr>theme = ''light''\<rparr>"

text \<open>\<open>setTheme(f)\<close> with a function argument applies \<open>f\<close> to the current value of the cell.\<close>

definition setTheme :: "(string \<Rightarrow> string) \<Rightarrow> 'a provider_scheme \<Rightarrow> 'a provider_scheme" where
  "setTheme f p = p\<lparr>theme := f (theme p)\<rparr>"

definition toggleTheme :: "'a provider_scheme \<Rightarrow> 'a provider_scheme" where
  "toggleTheme p = setTheme (\<lambda>prevTheme. if prevTheme = ''light'' then ''dark'' else ''light'') p"

subsection \<open>context/ThemeContext.jsx\<close>

text \<open>
  The second provider also writes a console line. The line is computed from the \<open>theme\<close>
  variable of the render that created the closure, not from the cell, so the closure takes
  that captured value as its first argument.
\<close>

record ctx_provider =
  ctx_theme :: string
  console :: "string list"

definition ctx_ThemeProvider_init :: ctx_provider where
  "ctx_ThemeProvider_init = \<lparr>ctx_theme = ''light'', console = []\<rparr>"

definition ctx_setTheme :: "(string \<Rightarrow> string) \<Rightarrow> ctx_provider \<Rightarrow> ctx_provider" where
  "ctx_setTheme f p = p\<lparr>ctx_theme := f (ctx_theme p)\<rparr>"

definition ctx_toggleTheme :: "string \<Rightarrow> ctx_provider \<Rightarrow> ctx_provider" where
  "ctx_toggleTheme captured p =
     (let p1 = ctx_setTheme (\<lambda>prevTheme. if prevTheme = ''light'' then ''dark'' else ''light'') p
      in p1\<lparr>console := console p1 @
           [''Theme toggled to: '' @ (if captured = ''light'' then ''dark'' else ''light'')]\<rparr>)"

text \<open>A click on the button calls the closure of the latest render, which captured the
  current value of the cell.\<close>

definition ctx_click :: "ctx_provider \<Rightarrow> ctx_provider" where
  "ctx_click p = ctx_toggleTheme (ctx_theme p) p"

section \<open>The counter cell (App.js, DocumentTitleUpdater)\<close>

text \<open>
  \<open>count\<close> is a JavaScript number, an IEEE 754 binary64. It starts at \<open>0\<close> and changes
  only by \<open>setCount(c => c + 1)\<close>, so it is a non-negative integer, held here as a \<open>nat\<close>.
  A binary64 has 53 significant bits: \<open>c + 1\<close> is the exact sum rounded to the nearest
  number with at most 53 significant bits, to the even one of two equally near. In
  \<open>round_binary64\<close>, \<open>e\<close> is the number of low bits that do not fit (none for a number of
  at most 53 bits: the subtraction on \<open>nat\<close> stops at \<open>0\<close>).
  (Sums of \<open>2 ^ 1024\<close> and more, which give \<open>Infinity\<close>, are outside this model.)
\<close>

fun bit_length :: "nat \<Rightarrow> nat" where
  "bit_length n = (if n = 0 then 0 else Suc (bit_length (n div 2)))"

definition round_binary64 :: "nat \<Rightarrow> nat" where
  "round_binary64 n =
     (let e = bit_length n - 53;
          q = n div 2 ^ e;
          r = n mod 2 ^ e
      in if 2 * r < 2 ^ e then q * 2 ^ e
         else if 2 ^ e < 2 * r then (q + 1) * 2 ^ e
         else if even q then q * 2 ^ e
         else (q + 1) * 2 ^ e)"

definition increment :: "nat \<Rightarrow> nat" where
  "increment c = round_binary64 (c + 1)"

text \<open>
  \<open>`Count: ${count} | Theme: ${theme}`\<close>: an integer below \<open>10 ^ 21\<close> is printed in
  decimal digits, which covers every value the counter takes.
\<close>

fun numberToString :: "nat \<Rightarrow> string" where
  "numberToString n =
     (if n < 10 then [''0123456789'' ! n]
      else numberToString (n div 10) @ [''0123456789'' ! (n mod 10)])"

definition titleText :: "nat \<Rightarrow> string \<Rightarrow> string" where
  "titleText c t = ''Count: '' @ numberToString c @ '' | Theme: '' @ t"

section \<open>The application (App.js)\<close>

text \<open>
  The application is a state machine over the React tree it renders. One step is one
  event of the page together with everything React does for it before it goes back to
  the event loop: the render of the components whose state, props or context changed,
  the commit to the DOM (which also attaches the refs), the layout effects, the passive
  effects, and the synchronous re-render that a state update inside a layout effect
  asks for. An effect runs at mount, and after a later render when one of its
  dependencies differs from the previous render's; its cleanup runs at unmount. A state
  update that leaves the cell as it is changes nothing: React may call the component
  function once more before it bails out of such an update, but it keeps nothing of
  that call, renders no child and runs no effect. The trace has a \<open>Render\<close> entry for
  each render whose result React keeps, so such a call leaves no entry.
\<close>

datatype component =
  App | ThemeProvider | Loading | Consumer | ThemeToggle | DocumentTitleUpdater | DomChangeTracker

text \<open>What a step leaves behind for an observer, in order.\<close>

datatype effect =
    Render component
  | AppendScript
  | RemoveScript
  | SetInterval
  | ClearInterval
  | SetTitle string
  | Measure nat

datatype button = ToggleThemeButton | FocusButton | IncrementButton | ToggleWidthButton

datatype event = MountApp | ScriptLoaded | Click button | UnmountApp

text \<open>
  The state: the cells of the \<open>useState\<close> calls, the refs, the dependencies each effect
  saw at the last commit, and the part of the page the components act on. Objects
  created during a render (the context value and the \<open>toggleTheme\<close> closure in it) are
  represented by their identity, a number taken from a counter.
\<close>

record app = provider +
  appMounted :: bool
  isTailwindLoaded :: bool
  tree :: "component list"
  toggleRef :: nat
  contextValue :: nat
  fresh :: nat
  buttonRef :: bool
  focused :: bool
  count :: nat
  customWidth :: string
  titleDeps :: "(nat \<times> string) option"
  boxRef :: bool
  width :: nat
  layoutDeps :: "nat option option"
  domClass :: string
  head_scripts :: nat
  timers :: nat
  title :: string
  trace :: "effect list"

text \<open>
  The browser's layout is a parameter: the \<open>offsetWidth\<close> (an integer number of pixels)
  of the tracked box, given the width class the wrapper \<open>div\<close> has in the DOM. The box
  has \<open>width: 100%\<close> of that wrapper. The wrapper also has a 500 ms CSS transition; the
  model reads the width the layout settles at.
\<close>

type_synonym layout = "string \<Rightarrow> nat"

text \<open>Before the root is mounted; \<open>t0\<close> is the title the page came with.\<close>

definition initial :: "string \<Rightarrow> app" where
  "initial t0 =
     \<lparr>theme = ''light'', appMounted = False, isTailwindLoaded = False, tree = [],
      toggleRef = 0, contextValue = 0, fresh = 0, buttonRef = False, focused = False,
      count = 0, customWidth = ''w-full'', titleDeps = None, boxRef = False, width = 0,
      layoutDeps = None, domClass = [], head_scripts = 0, timers = 0, title = t0,
      trace = []\<rparr>"

subsection \<open>ThemeProvider and ThemeToggle\<close>

text \<open>
  A render of \<open>ThemeProvider\<close> evaluates \<open>const toggleTheme = () => {...}\<close> and
  \<open>const contextValue = {theme, toggleTheme}\<close>: a new closure and a new object.
\<close>

definition renderProvider :: "app \<Rightarrow> app" where
  "renderProvider s =
     s\<lparr>toggleRef := fresh s, contextValue := fresh s + 1, fresh := fresh s + 2,
       trace := trace s @ [Render ThemeProvider]\<rparr>"

text \<open>\<open>if (buttonRef.current) { buttonRef.current.focus(); }\<close>\<close>

definition handleFocus :: "app \<Rightarrow> app" where
  "handleFocus s = (if buttonRef s then s\<lparr>focused := True\<rparr> else s)"

subsection \<open>DocumentTitleUpdater\<close>

text \<open>
  \<open>useEffect(() => { document.title = `Count: ${count} | Theme: ${theme}`; }, [count, theme])\<close>
\<close>

definition titleEffect :: "app \<Rightarrow> app" where
  "titleEffect s =
     (if titleDeps s = Some (count s, theme s) then s
      else s\<lparr>title := titleText (count s) (theme s),
             titleDeps := Some (count s, theme s),
             trace := trace s @ [SetTitle (titleText (count s) (theme s))]\<rparr>)"

text \<open>
  \<open>useEffect(() => { const intervalId = setInterval(..., 5000);
  return () => { clearInterval(intervalId); }; }, [])\<close>: with no dependency the effect runs
  at mount only, and its cleanup at unmount only.
\<close>

definition intervalEffect :: "app \<Rightarrow> app" where
  "intervalEffect s = s\<lparr>timers := timers s + 1, trace := trace s @ [SetInterval]\<rparr>"

definition intervalCleanup :: "app \<Rightarrow> app" where
  "intervalCleanup s = s\<lparr>timers := timers s - 1, trace := trace s @ [ClearInterval]\<rparr>"

subsection \<open>DomChangeTracker\<close>

text \<open>
  The dependency of the layout effect is \<open>boxRef.current?.offsetWidth\<close>, evaluated while
  the component renders: \<open>undefined\<close> (here \<open>None\<close>) while the ref is null, and otherwise
  the width of the box in the DOM as it is at that moment, before the commit of the
  render in progress.
\<close>

definition trackerDep :: "layout \<Rightarrow> app \<Rightarrow> nat option" where
  "trackerDep L s = (if boxRef s then Some (L (domClass s)) else None)"

text \<open>
  \<open>if (boxRef.current) { const currentWidth = boxRef.current.offsetWidth;
  setWidth(currentWidth); }\<close>
\<close>

definition measureEffect :: "layout \<Rightarrow> app \<Rightarrow> app" where
  "measureEffect L s =
     (if boxRef s
      then s\<lparr>width := L (domClass s), trace := trace s @ [Measure (L (domClass s))]\<rparr>
      else s)"

text \<open>
  When \<open>setWidth\<close> changed the cell, React renders \<open>DomChangeTracker\<close> again before the
  browser paints, and again runs the layout effect if the dependency differs. A
  \<open>setWidth\<close> with the value the cell already has ends the loop.
\<close>

function trackerRerender :: "layout \<Rightarrow> app \<Rightarrow> app" where
  "trackerRerender L s =
     (let dep = trackerDep L s;
          s1 = s\<lparr>trace := trace s @ [Render DomChangeTracker], layoutDeps := Some dep\<rparr>
      in if layoutDeps s = Some dep then s1
         else let s2 = measureEffect L s1
              in if width s2 = width s1 then s2 else trackerRerender L s2)"
  by pat_completeness auto
termination
  by (relation "measure (\<lambda>(L, s). if boxRef s \<and> width s \<noteq> L (domClass s) then 1 else 0)")
    (auto simp add: measureEffect_def Let_def split: if_splits)

subsection \<open>Commits\<close>

text \<open>
  An update in which \<open>DocumentTitleUpdater\<close> renders again, after the renders \<open>rs\<close> of its
  ancestors: it renders, then its child \<open>DomChangeTracker\<close> (which reads its dependency);
  the commit puts \<open>customWidth\<close> into the wrapper's class; then the layout effect, then
  the passive effects, then the re-render the layout effect asked for.
\<close>

definition commitUpdate :: "layout \<Rightarrow> effect list \<Rightarrow> app \<Rightarrow> app" where
  "commitUpdate L rs s =
     (let dep = trackerDep L s;
          s1 = s\<lparr>trace := trace s @ rs @ [Render DocumentTitleUpdater, Render DomChangeTracker]\<rparr>;
          s2 = s1\<lparr>domClass := customWidth s1, layoutDeps := Some dep\<rparr>;
          s3 = (if layoutDeps s = Some dep then s2 else measureEffect L s2);
          s4 = titleEffect s3
      in if width s3 = width s2 then s4 else trackerRerender L s4)"

text \<open>
  The first render of the root: \<open>isTailwindLoaded\<close> is \<open>false\<close>, so \<open>ThemeProvider\<close> is
  rendered with the placeholder as its child. The effect of \<open>App\<close> then creates the script
  element and appends it to \<open>document.head\<close>.
\<close>

definition mountApp :: "app \<Rightarrow> app" where
  "mountApp s =
     (let s1 = s\<lparr>appMounted := True, isTailwindLoaded := False, theme := ''light'',
                 trace := trace s @ [Render App]\<rparr>;
          s2 = renderProvider s1;
          s3 = s2\<lparr>tree := [App, ThemeProvider, Loading], trace := trace s2 @ [Render Loading]\<rparr>
      in s3\<lparr>head_scripts := head_scripts s3 + 1, trace := trace s3 @ [AppendScript]\<rparr>)"

text \<open>
  \<open>script.onload\<close>: \<open>setIsTailwindLoaded(true)\<close>. \<open>App\<close> renders again, and with it
  \<open>ThemeProvider\<close>; the placeholder goes, and the consumer with the three demo components
  is mounted, each with the initial values of its cells and its refs still null while
  it renders.
\<close>

definition mountDemo :: "layout \<Rightarrow> app \<Rightarrow> app" where
  "mountDemo L s =
     (let s1 = s\<lparr>isTailwindLoaded := True, trace := trace s @ [Render App]\<rparr>;
          s2 = renderProvider s1;
          s3 = s2\<lparr>count := 0, customWidth := ''w-full'', width := 0, titleDeps := None,
                 trace := trace s2 @ [Render Consumer, Render ThemeToggle,
                   Render DocumentTitleUpdater, Render DomChangeTracker]\<rparr>;
          s4 = s3\<lparr>tree := [App, ThemeProvider, Consumer, ThemeToggle, DocumentTitleUpdater,
                   DomChangeTracker],
                 domClass := customWidth s3, buttonRef := True, boxRef := True,
                 layoutDeps := Some None\<rparr>;
          s5 = measureEffect L s4;
          s6 = intervalEffect (titleEffect s5)
      in if width s5 = width s4 then s6 else trackerRerender L s6)"

text \<open>
  Unmounting the root runs the cleanups: \<open>document.head.removeChild(script)\<close> of \<open>App\<close>,
  and \<open>clearInterval\<close> if \<open>DocumentTitleUpdater\<close> was mounted. The refs go back to null,
  and the focused button is gone with the tree.
\<close>

definition unmountApp :: "app \<Rightarrow> app" where
  "unmountApp s =
     (let s1 = s\<lparr>head_scripts := head_scripts s - 1, trace := trace s @ [RemoveScript]\<rparr>;
          s2 = (if DocumentTitleUpdater \<in> set (tree s1) then intervalCleanup s1 else s1)
      in s2\<lparr>appMounted := False, tree := [], buttonRef := False, boxRef := False,
            focused := False\<rparr>)"

subsection \<open>Events\<close>

text \<open>
  A button can be clicked only while its component is mounted, and \<open>onload\<close> reaches a
  mounted root only; an event that cannot happen, or whose state update changes nothing,
  leaves the state as it is. The updaters of \<open>theme\<close> and \<open>customWidth\<close> never return the
  value they were given, so those two updates always render; \<open>c + 1\<close> can return \<open>c\<close>.
\<close>

fun step :: "layout \<Rightarrow> event \<Rightarrow> app \<Rightarrow> app" where
  "step L MountApp s = (if appMounted s then s else mountApp s)"
| "step L ScriptLoaded s =
     (if appMounted s \<and> \<not> isTailwindLoaded s then mountDemo L s else s)"
| "step L (Click ToggleThemeButton) s =
     (if ThemeToggle \<in> set (tree s)
      then commitUpdate L [Render Consumer, Render ThemeToggle] (renderProvider (toggleTheme s))
      else s)"
| "step L (Click FocusButton) s =
     (if ThemeToggle \<in> set (tree s) then handleFocus s else s)"
| "step L (Click IncrementButton) s =
     (if DocumentTitleUpdater \<in> set (tree s) \<and> increment (count s) \<noteq> count s
      then commitUpdate L [] (s\<lparr>count := increment (count s)\<rparr>)
      else s)"
| "step L (Click ToggleWidthButton) s =
     (if DocumentTitleUpdater \<in> set (tree s)
      then commitUpdate L []
             (s\<lparr>customWidth := (if customWidth s = ''w-full'' then ''w-1/2'' else ''w-full'')\<rparr>)
      else s)"
| "step L UnmountApp s = (if appMounted s then unmountApp s else s)"

fun run :: "layout \<Rightarrow> event list \<Rightarrow> app \<Rightarrow> app" where
  "run L [] s = s"
| "run L (e # es) s = run L es (step L e s)"

text \<open>The layout of the example: an 800 pixel container.\<close>

definition layout800 :: layout where
  "layout800 c = (if c = ''w-full'' then 800 else if c = ''w-1/2'' then 400 else 0)"

subsection \<open>Observations and invariants\<close>

text \<open>The entries of the trace that concern the timer, and those that concern the script.\<close>

fun timer_event :: "effect \<Rightarrow> bool" where
  "timer_event SetInterval = True"
| "timer_event ClearInterval = True"
| "timer_event _ = False"

fun script_event :: "effect \<Rightarrow> bool" where
  "script_event AppendScript = True"
| "script_event RemoveScript = True"
| "script_event _ = False"

text \<open>
  What holds between two events while the demo components are mounted: the title effect
  has run for the current \<open>count\<close> and \<open>theme\<close>, the counter has not passed \<open>2 ^ 53\<close>,
  the refs are attached, and the objects of the last provider render are older than
  the next identity.
\<close>

definition demo_mounted :: "app \<Rightarrow> bool" where
  "demo_mounted s =
     (appMounted s \<and> isTailwindLoaded s
      \<and> tree s = [App, ThemeProvider, Consumer, ThemeToggle, DocumentTitleUpdater, DomChangeTracker]
      \<and> titleDeps s = Some (count s, theme s)
      \<and> title s = titleText (count s) (theme s)
      \<and> count s \<le> 2 ^ 53
      \<and> buttonRef s \<and> boxRef s
      \<and> toggleRef s < fresh s \<and> contextValue s < fresh s)"

text \<open>What holds while the script has not loaded.\<close>

definition placeholder_mounted :: "app \<Rightarrow> bool" where
  "placeholder_mounted s =
     (appMounted s \<and> \<not> isTailwindLoaded s \<and> tree s = [App, ThemeProvider, Loading]
      \<and> toggleRef s < fresh s \<and> contextValue s < fresh s)"

text \<open>In every state: identities in use were handed out before the next one.\<close>

definition ids_ok :: "app \<Rightarrow> bool" where
  "ids_ok s =
     (contextValue s \<le> fresh s
      \<and> (appMounted s \<or> ThemeToggle \<in> set (tree s) \<longrightarrow>
           appMounted s \<and> toggleRef s < fresh s \<and> contextValue s < fresh s))"

text \<open>A state without its object identities: what a consumer that never compares the
  context value or the closure by reference can observe.\<close>

definition erase :: "app \<Rightarrow> app" where
  "erase s = s\<lparr>toggleRef := 0, contextValue := 0, fresh := 0\<rparr>"

section \<open>Scaffolding script (test.sh)\<close>

text \<open>
  The script runs without \<open>set -e\<close>: every command runs, whatever the one before it
  returned. Its state is the working directory (the regular files, by relative path,
  with their contents, and the directories) and the lines it prints on standard output.
  A command that fails leaves the directory as it is and prints on standard error
  only, which is not kept. Permissions are outside the model: what exists can be read
  and written.
\<close>

record shell =
  files :: "string \<rightharpoonup> string"
  dirs :: "string set"
  stdout :: "string list"

definition NL :: char where
  "NL = CHR 0x0A"

text \<open>A text of newline-terminated lines.\<close>

definition lines_nl :: "string list \<Rightarrow> string" where
  "lines_nl ls = concat (map (\<lambda>l. l @ [NL]) ls)"

text \<open>The lines of a text, as \<open>grep\<close> and \<open>sed\<close> read them: a last line without
  newline counts.\<close>

fun split_lines :: "string \<Rightarrow> string \<Rightarrow> string list" where
  "split_lines acc [] = (if acc = [] then [] else [acc])"
| "split_lines acc (c # cs) =
     (if c = NL then acc # split_lines [] cs else split_lines (acc @ [c]) cs)"



definition echo :: "string \<Rightarrow> shell \<Rightarrow> shell" where
  "echo l s = s\<lparr>stdout := stdout s @ [l]\<rparr>"

text \<open>
  \<open>mkdir -p d\<close>, for a name \<open>d\<close> in the working directory: nothing to do when \<open>d\<close> is a
  directory; \<open>File exists\<close>, and no directory, when \<open>d\<close> is a regular file.
\<close>

definition mkdir_p :: "string \<Rightarrow> shell \<Rightarrow> shell" where
  "mkdir_p d s =
     (if d \<in> dirs s then s
      else if files s d \<noteq> None then s
      else s\<lparr>dirs := insert d (dirs s)\<rparr>)"

text \<open>The directory part of a relative path, if it has one.\<close>

definition parent_dir :: "string \<Rightarrow> string option" where
  "parent_dir path =
     (if CHR ''/'' \<in> set path
      then Some (rev (tl (dropWhile (\<lambda>c. c \<noteq> CHR ''/'') (rev path))))
      else None)"

text \<open>
  The shell opens the target of \<open>> path\<close> before it runs the command. That fails when
  the path is a directory (\<open>Is a directory\<close>) or its directory part is not a directory
  (\<open>Not a directory\<close>, \<open>No such file or directory\<close>); the command is then not run.
\<close>

definition can_redirect :: "string \<Rightarrow> shell \<Rightarrow> bool" where
  "can_redirect path s =
     (path \<notin> dirs s \<and> (case parent_dir path of None \<Rightarrow> True | Some d \<Rightarrow> d \<in> dirs s))"

text \<open>
  \<open>cat > path << EOF\<close>: the file is replaced by the lines of the here-document, each
  with its newline. The delimiter is unquoted, so the shell would expand \<open>$\<close>, backquotes
  and backslashes in the body; the three bodies of this script contain none of them.
\<close>

definition cat_heredoc :: "string \<Rightarrow> string list \<Rightarrow> shell \<Rightarrow> shell" where
  "cat_heredoc path body s =
     (if can_redirect path s then s\<lparr>files := (files s)(path \<mapsto> lines_nl body)\<rparr> else s)"


text \<open>
  \<open>sed -i '' '1i\ ...' "$APP_FILE"\<close> depends on the \<open>sed\<close> at hand, as the script's own
  comment says. BSD \<open>sed\<close> (macOS) takes \<open>''\<close> for the backup suffix and the next
  argument for the script: it writes the lines of the insert command before line 1,
  then the lines of the file, each with its newline; a file without a line stays
  empty. GNU \<open>sed\<close> takes \<open>''\<close> for the script and the insert command for the name of a
  file, which it cannot read; it rewrites the entry file as it is. Neither edits what is
  not a regular file.
\<close>

datatype sed = BSD_sed | GNU_sed

definition sed_i_insert :: "sed \<Rightarrow> string list \<Rightarrow> string \<Rightarrow> shell \<Rightarrow> shell" where
  "sed_i_insert flavour ins path s =
     (if path \<in> dirs s then s
      else case files s path of
        None \<Rightarrow> s
      | Some text \<Rightarrow>
          (case flavour of
             GNU_sed \<Rightarrow> s
           | BSD_sed \<Rightarrow>
               (if split_lines [] text = [] then s\<lparr>files := (files s)(path \<mapsto> [])\<rparr>
                else s\<lparr>files := (files s)(path \<mapsto> lines_nl (ins @ split_lines [] text))\<rparr>)))"






















section \<open>Theme store: properties\<close>

lemma theme_toggleTheme:
  "theme (toggleTheme p) = (if theme p = ''light'' then ''dark'' else ''light'')"
  by (simp add: toggleTheme_def setTheme_def)

lemma ctx_theme_click:
  "ctx_theme (ctx_click p) = (if ctx_theme p = ''light'' then ''dark'' else ''light'')"
  by (simp add: ctx_click_def ctx_toggleTheme_def ctx_setTheme_def Let_def)

lemma theme_toggle_iter:
  "theme p = ''light'' \<Longrightarrow>
   theme ((toggleTheme ^^ n) p) = (if even n then ''light'' else ''dark'')"
  by (induction n) (simp_all add: theme_toggleTheme)

lemma ctx_theme_click_iter:
  "ctx_theme p = ''light'' \<Longrightarrow>
   ctx_theme ((ctx_click ^^ n) p) = (if even n then ''light'' else ''dark'')"
  by (induction n) (simp_all add: ctx_theme_click)

section \<open>The counter cell: properties\<close>

declare bit_length.simps [simp del]

lemma bit_length_le: "n < 2 ^ k \<Longrightarrow> bit_length n \<le> k"
proof (induction k arbitrary: n)
  case 0
  then show ?case by (simp add: bit_length.simps)
next
  case (Suc k)
  from Suc.prems have "n div 2 < 2 ^ k" by simp
  then have "bit_length (n div 2) \<le> k" by (rule Suc.IH)
  then show ?case by (subst bit_length.simps) simp
qed

lemma bit_length_eq: "2 ^ k \<le> n \<Longrightarrow> n < 2 ^ Suc k \<Longrightarrow> bit_length n = Suc k"
proof (induction k arbitrary: n)
  case 0
  then have "n = 1" by simp
  then show ?case by (simp add: bit_length.simps)
next
  case (Suc k)
  from Suc.prems have "2 ^ k \<le> n div 2" "n div 2 < 2 ^ Suc k" by simp_all
  then have "bit_length (n div 2) = Suc k" by (rule Suc.IH)
  moreover from Suc.prems have "n \<noteq> 0" by auto
  ultimately show ?case by (subst bit_length.simps) simp
qed

lemma round_binary64_small: "n < 2 ^ 53 \<Longrightarrow> round_binary64 n = n"
  using bit_length_le [of n 53] by (simp add: round_binary64_def)

lemma round_binary64_2_53: "round_binary64 (2 ^ 53) = 2 ^ 53"
  using bit_length_eq [of 53 "2 ^ 53"] by (simp add: round_binary64_def)

lemma round_binary64_2_53_1: "round_binary64 (2 ^ 53 + 1) = 2 ^ 53"
  using bit_length_eq [of 53 "2 ^ 53 + 1"] by (simp add: round_binary64_def)

lemma increment_safe: "c < 2 ^ 53 \<Longrightarrow> increment c = c + 1"
proof -
  assume c: "c < 2 ^ 53"
  show ?thesis
  proof (cases "c + 1 < 2 ^ 53")
    case True
    then show ?thesis by (simp add: increment_def round_binary64_small)
  next
    case False
    with c have "c + 1 = 2 ^ 53" by simp
    then show ?thesis using round_binary64_2_53 by (simp add: increment_def)
  qed
qed

lemma increment_stuck: "increment (2 ^ 53) = 2 ^ 53"
  using round_binary64_2_53_1 by (simp add: increment_def)

section \<open>The application: properties\<close>

declare trackerRerender.simps [simp del]

subsection \<open>The re-render loop, and what each phase leaves unchanged\<close>

text \<open>The loop runs at most twice: after a measurement the dependency read by the next
  render is the one just stored.\<close>

lemma trackerRerender_closed:
  "trackerRerender L s =
     (let dep = trackerDep L s;
          s1 = s\<lparr>trace := trace s @ [Render DomChangeTracker], layoutDeps := Some dep\<rparr>
      in if layoutDeps s = Some dep then s1
         else let s2 = measureEffect L s1
              in if width s2 = width s1 then s2
                 else s2\<lparr>trace := trace s2 @ [Render DomChangeTracker]\<rparr>)"
  apply (subst trackerRerender.simps)
  apply (simp add: Let_def)
  apply (intro impI)
  apply (subst trackerRerender.simps)
  apply (simp add: Let_def trackerDep_def measureEffect_def)
  done

lemma trackerRerender_frame [simp]:
  "theme (trackerRerender L s) = theme s"
  "appMounted (trackerRerender L s) = appMounted s"
  "isTailwindLoaded (trackerRerender L s) = isTailwindLoaded s"
  "tree (trackerRerender L s) = tree s"
  "toggleRef (trackerRerender L s) = toggleRef s"
  "contextValue (trackerRerender L s) = contextValue s"
  "fresh (trackerRerender L s) = fresh s"
  "buttonRef (trackerRerender L s) = buttonRef s"
  "focused (trackerRerender L s) = focused s"
  "count (trackerRerender L s) = count s"
  "customWidth (trackerRerender L s) = customWidth s"
  "titleDeps (trackerRerender L s) = titleDeps s"
  "boxRef (trackerRerender L s) = boxRef s"
  "domClass (trackerRerender L s) = domClass s"
  "head_scripts (trackerRerender L s) = head_scripts s"
  "timers (trackerRerender L s) = timers s"
  "title (trackerRerender L s) = title s"
  by (simp_all add: trackerRerender_closed Let_def measureEffect_def)

lemma trackerRerender_trace [simp]:
  "filter timer_event (trace (trackerRerender L s)) = filter timer_event (trace s)"
  "filter script_event (trace (trackerRerender L s)) = filter script_event (trace s)"
  by (simp_all add: trackerRerender_closed Let_def measureEffect_def)

lemma measureEffect_frame [simp]:
  "theme (measureEffect L s) = theme s"
  "appMounted (measureEffect L s) = appMounted s"
  "isTailwindLoaded (measureEffect L s) = isTailwindLoaded s"
  "tree (measureEffect L s) = tree s"
  "toggleRef (measureEffect L s) = toggleRef s"
  "contextValue (measureEffect L s) = contextValue s"
  "fresh (measureEffect L s) = fresh s"
  "buttonRef (measureEffect L s) = buttonRef s"
  "focused (measureEffect L s) = focused s"
  "count (measureEffect L s) = count s"
  "customWidth (measureEffect L s) = customWidth s"
  "titleDeps (measureEffect L s) = titleDeps s"
  "boxRef (measureEffect L s) = boxRef s"
  "domClass (measureEffect L s) = domClass s"
  "head_scripts (measureEffect L s) = head_scripts s"
  "timers (measureEffect L s) = timers s"
  "title (measureEffect L s) = title s"
  "layoutDeps (measureEffect L s) = layoutDeps s"
  "filter timer_event (trace (measureEffect L s)) = filter timer_event (trace s)"
  "filter script_event (trace (measureEffect L s)) = filter script_event (trace s)"
  by (simp_all add: measureEffect_def)

lemma titleEffect_frame [simp]:
  "theme (titleEffect s) = theme s"
  "appMounted (titleEffect s) = appMounted s"
  "isTailwindLoaded (titleEffect s) = isTailwindLoaded s"
  "tree (titleEffect s) = tree s"
  "toggleRef (titleEffect s) = toggleRef s"
  "contextValue (titleEffect s) = contextValue s"
  "fresh (titleEffect s) = fresh s"
  "buttonRef (titleEffect s) = buttonRef s"
  "focused (titleEffect s) = focused s"
  "count (titleEffect s) = count s"
  "customWidth (titleEffect s) = customWidth s"
  "boxRef (titleEffect s) = boxRef s"
  "width (titleEffect s) = width s"
  "layoutDeps (titleEffect s) = layoutDeps s"
  "domClass (titleEffect s) = domClass s"
  "head_scripts (titleEffect s) = head_scripts s"
  "timers (titleEffect s) = timers s"
  "filter timer_event (trace (titleEffect s)) = filter timer_event (trace s)"
  "filter script_event (trace (titleEffect s)) = filter script_event (trace s)"
  by (simp_all add: titleEffect_def)

lemma titleEffect_settles [simp]:
  "titleDeps (titleEffect s) = Some (count s, theme s)"
  "titleDeps s = None \<or> title s = titleText (count s) (theme s) \<and> titleDeps s = Some (count s, theme s)
     \<or> titleDeps s \<noteq> Some (count s, theme s) \<Longrightarrow>
   title (titleEffect s) = titleText (count s) (theme s)"
  by (auto simp add: titleEffect_def)

lemma commitUpdate_frame [simp]:
  "theme (commitUpdate L rs s) = theme s"
  "appMounted (commitUpdate L rs s) = appMounted s"
  "isTailwindLoaded (commitUpdate L rs s) = isTailwindLoaded s"
  "tree (commitUpdate L rs s) = tree s"
  "toggleRef (commitUpdate L rs s) = toggleRef s"
  "contextValue (commitUpdate L rs s) = contextValue s"
  "fresh (commitUpdate L rs s) = fresh s"
  "buttonRef (commitUpdate L rs s) = buttonRef s"
  "focused (commitUpdate L rs s) = focused s"
  "count (commitUpdate L rs s) = count s"
  "customWidth (commitUpdate L rs s) = customWidth s"
  "boxRef (commitUpdate L rs s) = boxRef s"
  "domClass (commitUpdate L rs s) = customWidth s"
  "head_scripts (commitUpdate L rs s) = head_scripts s"
  "timers (commitUpdate L rs s) = timers s"
  "titleDeps (commitUpdate L rs s) = Some (count s, theme s)"
  by (simp_all add: commitUpdate_def Let_def)

lemma commitUpdate_trace [simp]:
  "filter timer_event (trace (commitUpdate L rs s)) =
     filter timer_event (trace s) @ filter timer_event rs"
  "filter script_event (trace (commitUpdate L rs s)) =
     filter script_event (trace s) @ filter script_event rs"
  by (simp_all add: commitUpdate_def Let_def)

lemma commitUpdate_title:
  "titleDeps s = Some d \<Longrightarrow> title s = titleText (fst d) (snd d) \<Longrightarrow>
   title (commitUpdate L rs s) = titleText (count s) (theme s)"
  by (cases d) (auto simp add: commitUpdate_def Let_def titleEffect_def)

lemma renderProvider_frame [simp]:
  "theme (renderProvider s) = theme s"
  "appMounted (renderProvider s) = appMounted s"
  "isTailwindLoaded (renderProvider s) = isTailwindLoaded s"
  "tree (renderProvider s) = tree s"
  "buttonRef (renderProvider s) = buttonRef s"
  "focused (renderProvider s) = focused s"
  "count (renderProvider s) = count s"
  "customWidth (renderProvider s) = customWidth s"
  "titleDeps (renderProvider s) = titleDeps s"
  "boxRef (renderProvider s) = boxRef s"
  "width (renderProvider s) = width s"
  "layoutDeps (renderProvider s) = layoutDeps s"
  "domClass (renderProvider s) = domClass s"
  "head_scripts (renderProvider s) = head_scripts s"
  "timers (renderProvider s) = timers s"
  "title (renderProvider s) = title s"
  "toggleRef (renderProvider s) = fresh s"
  "contextValue (renderProvider s) = fresh s + 1"
  "fresh (renderProvider s) = fresh s + 2"
  "filter timer_event (trace (renderProvider s)) = filter timer_event (trace s)"
  "filter script_event (trace (renderProvider s)) = filter script_event (trace s)"
  by (simp_all add: renderProvider_def)

lemma toggleTheme_frame [simp]:
  "appMounted (toggleTheme s) = appMounted s"
  "isTailwindLoaded (toggleTheme s) = isTailwindLoaded s"
  "tree (toggleTheme s) = tree s"
  "toggleRef (toggleTheme s) = toggleRef s"
  "contextValue (toggleTheme s) = contextValue s"
  "fresh (toggleTheme s) = fresh s"
  "buttonRef (toggleTheme s) = buttonRef s"
  "focused (toggleTheme s) = focused s"
  "count (toggleTheme s) = count s"
  "customWidth (toggleTheme s) = customWidth s"
  "titleDeps (toggleTheme s) = titleDeps s"
  "boxRef (toggleTheme s) = boxRef s"
  "width (toggleTheme s) = width s"
  "layoutDeps (toggleTheme s) = layoutDeps s"
  "domClass (toggleTheme s) = domClass s"
  "head_scripts (toggleTheme s) = head_scripts s"
  "timers (toggleTheme s) = timers s"
  "title (toggleTheme s) = title s"
  "trace (toggleTheme s) = trace s"
  by (simp_all add: toggleTheme_def setTheme_def)

subsection \<open>The mounted demo\<close>

lemma demo_mounted_after_load: "demo_mounted (run L [MountApp, ScriptLoaded] (initial t0))"
  by (simp add: demo_mounted_def initial_def mountApp_def mountDemo_def Let_def
      intervalEffect_def)

lemma demo_mounted_click: "demo_mounted s \<Longrightarrow> demo_mounted (step L (Click b) s)"
proof (cases b)
  case ToggleThemeButton
  assume "demo_mounted s"
  then show ?thesis using ToggleThemeButton
    by (simp add: demo_mounted_def commitUpdate_title theme_toggleTheme)
next
  case FocusButton
  assume "demo_mounted s"
  then show ?thesis using FocusButton by (simp add: demo_mounted_def handleFocus_def)
next
  case IncrementButton
  assume d: "demo_mounted s"
  show ?thesis
  proof (cases "count s < 2 ^ 53")
    case True
    with d show ?thesis using IncrementButton
      by (simp add: demo_mounted_def commitUpdate_title increment_safe)
  next
    case False
    with d have "count s = 2 ^ 53" by (simp add: demo_mounted_def)
    with d show ?thesis using IncrementButton increment_stuck by simp
  qed
next
  case ToggleWidthButton
  assume "demo_mounted s"
  then show ?thesis using ToggleWidthButton
    by (simp add: demo_mounted_def commitUpdate_title)
qed

lemma demo_mounted_clicks: "demo_mounted s \<Longrightarrow> demo_mounted (run L (map Click cs) s)"
  by (induction cs arbitrary: s) (simp_all add: demo_mounted_click del: step.simps)

lemma count_click:
  "demo_mounted s \<Longrightarrow>
   count (step L (Click b) s) =
     (if b = IncrementButton \<and> count s < 2 ^ 53 then count s + 1 else count s)"
proof (cases b)
  case IncrementButton
  assume d: "demo_mounted s"
  show ?thesis
  proof (cases "count s < 2 ^ 53")
    case True
    with d show ?thesis using IncrementButton
      by (simp add: demo_mounted_def increment_safe)
  next
    case False
    with d have "count s = 2 ^ 53" by (simp add: demo_mounted_def)
    then show ?thesis using IncrementButton increment_stuck by simp
  qed
qed (simp_all add: handleFocus_def)

lemma count_clicks:
  "demo_mounted s \<Longrightarrow>
   count (run L (map Click cs) s) = min (count s + count_list cs IncrementButton) (2 ^ 53)"
proof (induction cs arbitrary: s)
  case Nil
  then show ?case by (simp add: demo_mounted_def)
next
  case (Cons b cs)
  from Cons.prems have d: "demo_mounted (step L (Click b) s)" by (rule demo_mounted_click)
  have "count (run L (map Click (b # cs)) s) =
        min (count (step L (Click b) s) + count_list cs IncrementButton) (2 ^ 53)"
    using Cons.IH [OF d] by simp
  also have "\<dots> = min (count s + count_list (b # cs) IncrementButton) (2 ^ 53)"
    using Cons.prems by (auto simp add: count_click demo_mounted_def simp del: step.simps)
  finally show ?case .
qed

lemma count_after_load: "count (run L [MountApp, ScriptLoaded] (initial t0)) = 0"
  by (simp add: initial_def mountApp_def mountDemo_def Let_def intervalEffect_def)

lemma run_append: "run L (es @ es') s = run L es' (run L es s)"
  by (induction es arbitrary: s) simp_all

lemma theme_click_toggle:
  "demo_mounted s \<Longrightarrow>
   theme (step L (Click ToggleThemeButton) s) =
     (if theme s = ''light'' then ''dark'' else ''light'')"
  by (simp add: demo_mounted_def theme_toggleTheme)

lemma theme_toggle_clicks:
  "demo_mounted s \<Longrightarrow> theme s = ''light'' \<Longrightarrow>
   theme (run L (replicate n (Click ToggleThemeButton)) s) =
     (if even n then ''light'' else ''dark'')"
proof (induction n)
  case 0
  then show ?case by simp
next
  case (Suc n)
  have d: "demo_mounted (run L (replicate n (Click ToggleThemeButton)) s)"
    using demo_mounted_clicks [OF Suc.prems(1), of L "replicate n ToggleThemeButton"]
    by (simp only: map_replicate)
  have "run L (replicate (Suc n) (Click ToggleThemeButton)) s =
        step L (Click ToggleThemeButton) (run L (replicate n (Click ToggleThemeButton)) s)"
    using run_append [of L "replicate n (Click ToggleThemeButton)" "[Click ToggleThemeButton]" s]
    by (simp only: replicate_append_same run.simps replicate_Suc [symmetric])
  then show ?case
    using Suc.IH [OF Suc.prems] by (simp only: theme_click_toggle [OF d]) simp
qed

lemma theme_after_load: "theme (run L [MountApp, ScriptLoaded] (initial t0)) = ''light''"
  by (simp add: initial_def mountApp_def mountDemo_def intervalEffect_def Let_def)

text \<open>
  Claim C1. For every natural number \<open>n\<close>, \<open>n\<close> toggles from the initial mode \<open>light\<close>
  give \<open>light\<close> when \<open>n\<close> is even and \<open>dark\<close> when \<open>n\<close> is odd: for the toggle of
  either provider, and for \<open>n\<close> clicks on the toggle button of the mounted application.
  One toggle sends \<open>light\<close> to \<open>dark\<close> and \<open>dark\<close> to \<open>light\<close>, and whatever the cell held
  before, the value after a toggle is one of the two modes.
\<close>

theorem toggle_parity:
  "theme ((toggleTheme ^^ n) ThemeProvider_init) = (if even n then ''light'' else ''dark'')
   \<and> ctx_theme ((ctx_click ^^ n) ctx_ThemeProvider_init) = (if even n then ''light'' else ''dark'')
   \<and> theme (run L (MountApp # ScriptLoaded # replicate n (Click ToggleThemeButton)) (initial t0)) =
       (if even n then ''light'' else ''dark'')
   \<and> theme (toggleTheme (p\<lparr>theme := ''light''\<rparr>)) = ''dark''
   \<and> theme (toggleTheme (p\<lparr>theme := ''dark''\<rparr>)) = ''light''
   \<and> theme (toggleTheme p) \<in> {''light'', ''dark''}
   \<and> ctx_theme (ctx_click q) \<in> {''light'', ''dark''}"
proof -
  have "theme (run L (replicate n (Click ToggleThemeButton))
          (run L [MountApp, ScriptLoaded] (initial t0))) = (if even n then ''light'' else ''dark'')"
    using demo_mounted_after_load theme_after_load by (rule theme_toggle_clicks)
  then have "theme (run L (MountApp # ScriptLoaded # replicate n (Click ToggleThemeButton))
          (initial t0)) = (if even n then ''light'' else ''dark'')"
    by (simp only: run.simps)
  then show ?thesis
    using theme_toggle_iter [of ThemeProvider_init n]
      ctx_theme_click_iter [of ctx_ThemeProvider_init n]
    by (simp add: theme_toggleTheme ctx_theme_click ThemeProvider_init_def
        ctx_ThemeProvider_init_def del: run.simps)
qed

theorem toggle_parity_witness:
  "theme ((toggleTheme ^^ 3) ThemeProvider_init) = ''dark''
   \<and> ctx_theme ((ctx_click ^^ 4) ctx_ThemeProvider_init) = ''light''
   \<and> theme (run layout800 (MountApp # ScriptLoaded # replicate 3 (Click ToggleThemeButton))
         (initial '''')) = ''dark''"
  using toggle_parity [of 3 layout800 "''''" ThemeProvider_init ctx_ThemeProvider_init]
    toggle_parity [of 4 layout800 "''''" ThemeProvider_init ctx_ThemeProvider_init]
  by (simp del: run.simps)

subsection \<open>Counter, title and timer\<close>

lemma click_timer_trace:
  "filter timer_event (trace (step L (Click b) s)) = filter timer_event (trace s)"
  by (cases b) (simp_all add: handleFocus_def)

lemma click_script_trace:
  "filter script_event (trace (step L (Click b) s)) = filter script_event (trace s)"
  by (cases b) (simp_all add: handleFocus_def)

lemma click_timers: "timers (step L (Click b) s) = timers s"
  by (cases b) (simp_all add: handleFocus_def)

lemma click_head_scripts: "head_scripts (step L (Click b) s) = head_scripts s"
  by (cases b) (simp_all add: handleFocus_def)

lemma clicks_frame:
  "filter timer_event (trace (run L (map Click cs) s)) = filter timer_event (trace s)"
  "filter script_event (trace (run L (map Click cs) s)) = filter script_event (trace s)"
  "timers (run L (map Click cs) s) = timers s"
  "head_scripts (run L (map Click cs) s) = head_scripts s"
  by (induction cs arbitrary: s)
    (simp_all add: click_timer_trace click_script_trace click_timers click_head_scripts
      del: step.simps)

lemma timers_after_load:
  "filter timer_event (trace (run L [MountApp, ScriptLoaded] (initial t0))) = [SetInterval]"
  "timers (run L [MountApp, ScriptLoaded] (initial t0)) = 1"
  by (simp_all add: initial_def mountApp_def mountDemo_def Let_def intervalEffect_def)

lemma unmount_demo:
  "demo_mounted s \<Longrightarrow>
   filter timer_event (trace (step L UnmountApp s)) = filter timer_event (trace s) @ [ClearInterval]"
  "demo_mounted s \<Longrightarrow> timers (step L UnmountApp s) = timers s - 1"
  by (simp_all add: demo_mounted_def unmountApp_def Let_def intervalCleanup_def)

lemma count_list_replicate_same: "count_list (replicate n x) x = n"
  by (induction n) simp_all

text \<open>
  Claim C2, as amended. From a freshly mounted counter, after any clicks of which \<open>K\<close>
  are on the increment button, and \<open>K\<close> is at most \<open>2 ^ 53\<close>, the count is \<open>K\<close> and the
  document title is \<open>Count: K | Theme: mode\<close> for the mode of that moment.
\<close>

theorem counter_and_title:
  "count_list cs IncrementButton = K \<Longrightarrow> K \<le> 2 ^ 53 \<Longrightarrow>
   count (run L (MountApp # ScriptLoaded # map Click cs) (initial t0)) = K
   \<and> title (run L (MountApp # ScriptLoaded # map Click cs) (initial t0)) =
       ''Count: '' @ numberToString K @ '' | Theme: '' @
         theme (run L (MountApp # ScriptLoaded # map Click cs) (initial t0))"
proof -
  assume K: "count_list cs IncrementButton = K" "K \<le> 2 ^ 53"
  let ?s1 = "run L [MountApp, ScriptLoaded] (initial t0)"
  let ?s2 = "run L (map Click cs) ?s1"
  have eq: "run L (MountApp # ScriptLoaded # map Click cs) (initial t0) = ?s2" by simp
  have d1: "demo_mounted ?s1" by (rule demo_mounted_after_load)
  then have d2: "demo_mounted ?s2" by (rule demo_mounted_clicks)
  have "count ?s2 = min (count ?s1 + count_list cs IncrementButton) (2 ^ 53)"
    using d1 by (rule count_clicks)
  with K have c: "count ?s2 = K" by (simp only: count_after_load)
  from d2 have "title ?s2 = titleText (count ?s2) (theme ?s2)" by (simp add: demo_mounted_def)
  with c show ?thesis by (simp only: eq titleText_def)
qed

theorem counter_and_title_witness:
  "count (run layout800
     [MountApp, ScriptLoaded, Click IncrementButton, Click IncrementButton, Click IncrementButton]
     (initial '''')) = 3
   \<and> title (run layout800
     [MountApp, ScriptLoaded, Click IncrementButton, Click IncrementButton, Click IncrementButton]
     (initial '''')) = ''Count: 3 | Theme: light''"
proof -
  have "theme (run layout800
     [MountApp, ScriptLoaded, Click IncrementButton, Click IncrementButton, Click IncrementButton]
     (initial '''')) = ''light''"
    by code_simp
  then show ?thesis
    using counter_and_title [of "[IncrementButton, IncrementButton, IncrementButton]" 3
        layout800 "''''"]
    by (simp del: run.simps step.simps)
qed

text \<open>
  The claim as stated sets no bound on \<open>K\<close>. After \<open>2 ^ 53 + 1\<close> increments the count is
  \<open>2 ^ 53\<close>: there \<open>c + 1\<close> rounds back to \<open>c\<close>.
\<close>

theorem counter_saturates_counterexample:
  "count (run layout800
     (MountApp # ScriptLoaded # replicate 9007199254740993 (Click IncrementButton))
     (initial '''')) = 9007199254740992
   \<and> count (run layout800
     (MountApp # ScriptLoaded # replicate 9007199254740993 (Click IncrementButton))
     (initial '''')) \<noteq> 9007199254740993"
proof -
  let ?cs = "replicate 9007199254740993 IncrementButton"
  have "count (run layout800 (map Click ?cs) (run layout800 [MountApp, ScriptLoaded] (initial ''''))) =
        min (count (run layout800 [MountApp, ScriptLoaded] (initial '''')) + count_list ?cs IncrementButton) (2 ^ 53)"
    using demo_mounted_after_load by (rule count_clicks)
  moreover have "count_list ?cs IncrementButton = 9007199254740993"
    by (simp only: count_list_replicate_same)
  ultimately have "count (run layout800
     (MountApp # ScriptLoaded # replicate 9007199254740993 (Click IncrementButton))
     (initial '''')) = 9007199254740992"
    by (simp only: count_after_load map_replicate run.simps) simp
  then show ?thesis by simp
qed

text \<open>
  Claim C3. Over the mounted lifetime of the counter component the timer is set exactly
  once, when the component mounts, and cleared exactly once, when it unmounts, whatever
  buttons are clicked in between; no click, in any state, sets or clears a timer.
\<close>

theorem interval_once:
  "filter timer_event (trace (run L [MountApp, ScriptLoaded] (initial t0))) = [SetInterval]
   \<and> filter timer_event (trace (run L (MountApp # ScriptLoaded # map Click cs) (initial t0))) =
       [SetInterval]
   \<and> timers (run L (MountApp # ScriptLoaded # map Click cs) (initial t0)) = 1
   \<and> filter timer_event
        (trace (run L (MountApp # ScriptLoaded # map Click cs @ [UnmountApp]) (initial t0))) =
       [SetInterval, ClearInterval]
   \<and> timers (run L (MountApp # ScriptLoaded # map Click cs @ [UnmountApp]) (initial t0)) = 0
   \<and> filter timer_event (trace (step L (Click b) s)) = filter timer_event (trace s)
   \<and> timers (step L (Click b) s) = timers s"
proof -
  let ?s1 = "run L [MountApp, ScriptLoaded] (initial t0)"
  let ?s2 = "run L (map Click cs) ?s1"
  have eq2: "run L (MountApp # ScriptLoaded # map Click cs) (initial t0) = ?s2" by simp
  have eq3: "run L (MountApp # ScriptLoaded # map Click cs @ [UnmountApp]) (initial t0) =
             step L UnmountApp ?s2"
    using run_append [of L "MountApp # ScriptLoaded # map Click cs" "[UnmountApp]" "initial t0"]
    by simp
  have d2: "demo_mounted ?s2" using demo_mounted_after_load by (rule demo_mounted_clicks)
  have t1: "filter timer_event (trace ?s1) = [SetInterval]" by (rule timers_after_load)
  have n1: "timers ?s1 = 1" by (rule timers_after_load)
  have t2: "filter timer_event (trace ?s2) = [SetInterval]" by (simp only: clicks_frame t1)
  have n2: "timers ?s2 = 1" by (simp only: clicks_frame n1)
  have t3: "filter timer_event (trace (step L UnmountApp ?s2)) = [SetInterval, ClearInterval]"
    by (simp only: unmount_demo [OF d2] t2) simp
  have n3: "timers (step L UnmountApp ?s2) = 0" by (simp only: unmount_demo [OF d2] n2)
  show ?thesis
    by (simp only: eq2 eq3 t1 t2 n2 t3 n3 click_timer_trace click_timers)
qed

theorem interval_once_witness:
  "filter timer_event (trace (run layout800
      [MountApp, ScriptLoaded, Click IncrementButton, Click ToggleThemeButton,
       Click IncrementButton, Click ToggleWidthButton, UnmountApp] (initial ''''))) =
     [SetInterval, ClearInterval]"
  using interval_once [of layout800 "''''"
      "[IncrementButton, ToggleThemeButton, IncrementButton, ToggleWidthButton]"]
  by (simp only: list.map append_Cons append_Nil)

text \<open>
  Claim C4, evaluated on the code. In an 800 pixel container the box measures 800 after
  mount. A click on the width toggle renders both components and commits the class
  \<open>w-1/2\<close>, under which the box is 400 pixels wide; neither the layout effect nor the
  title effect runs, and the stored width is still 800. The next render (here after an
  increment) measures 400; in that step the layout effect runs before the title effect.
\<close>

theorem width_toggle_keeps_stale_width:
  "width (run layout800 [MountApp, ScriptLoaded] (initial '''')) = 800
   \<and> customWidth (run layout800 [MountApp, ScriptLoaded, Click ToggleWidthButton] (initial '''')) =
       ''w-1/2''
   \<and> domClass (run layout800 [MountApp, ScriptLoaded, Click ToggleWidthButton] (initial '''')) =
       ''w-1/2''
   \<and> layout800 ''w-1/2'' = 400
   \<and> width (run layout800 [MountApp, ScriptLoaded, Click ToggleWidthButton] (initial '''')) = 800
   \<and> trace (run layout800 [MountApp, ScriptLoaded, Click ToggleWidthButton] (initial '''')) =
       trace (run layout800 [MountApp, ScriptLoaded] (initial '''')) @
         [Render DocumentTitleUpdater, Render DomChangeTracker]
   \<and> width (run layout800 [MountApp, ScriptLoaded, Click ToggleWidthButton, Click IncrementButton]
         (initial '''')) = 400
   \<and> trace (run layout800 [MountApp, ScriptLoaded, Click ToggleWidthButton, Click IncrementButton]
         (initial '''')) =
       trace (run layout800 [MountApp, ScriptLoaded, Click ToggleWidthButton] (initial '''')) @
         [Render DocumentTitleUpdater, Render DomChangeTracker, Measure 400,
          SetTitle ''Count: 1 | Theme: light'', Render DomChangeTracker]"
  by code_simp

text \<open>
  Claim C5. The focus action changes neither theme, count, width class nor measured
  width, and renders nothing: it changes at most which element has the focus. With a
  null ref it changes nothing at all.
\<close>

theorem focus_changes_nothing:
  "theme (handleFocus s) = theme s
   \<and> count (handleFocus s) = count s
   \<and> customWidth (handleFocus s) = customWidth s
   \<and> width (handleFocus s) = width s
   \<and> trace (handleFocus s) = trace s
   \<and> handleFocus s = s\<lparr>focused := focused s \<or> buttonRef s\<rparr>
   \<and> (\<not> buttonRef s \<longrightarrow> handleFocus s = s)
   \<and> step L (Click FocusButton) s = (if ThemeToggle \<in> set (tree s) then handleFocus s else s)"
  by (simp add: handleFocus_def)

theorem focus_changes_nothing_witness:
  "\<not> buttonRef (initial '''') \<and> handleFocus (initial '''') = initial ''''
   \<and> buttonRef (run layout800 [MountApp, ScriptLoaded] (initial ''''))
   \<and> trace (step layout800 (Click FocusButton) (run layout800 [MountApp, ScriptLoaded] (initial ''''))) =
       trace (run layout800 [MountApp, ScriptLoaded] (initial ''''))
   \<and> focused (step layout800 (Click FocusButton) (run layout800 [MountApp, ScriptLoaded] (initial '''')))"
  using focus_changes_nothing [of "initial ''''" layout800]
    focus_changes_nothing [of "run layout800 [MountApp, ScriptLoaded] (initial '''')" layout800]
    demo_mounted_after_load [of layout800 "''''"]
  by (simp add: demo_mounted_def initial_def)

subsection \<open>Gating on the script\<close>

lemma placeholder_after_mount: "placeholder_mounted (step L MountApp (initial t0))"
  by (simp add: placeholder_mounted_def initial_def mountApp_def Let_def)

lemma placeholder_click: "placeholder_mounted s \<Longrightarrow> step L (Click b) s = s"
  by (cases b) (simp_all add: placeholder_mounted_def)

lemma placeholder_clicks: "placeholder_mounted s \<Longrightarrow> run L (map Click cs) s = s"
  by (induction cs) (simp_all add: placeholder_click del: step.simps)

lemma mountDemo_tree:
  "tree (mountDemo L s) =
     [App, ThemeProvider, Consumer, ThemeToggle, DocumentTitleUpdater, DomChangeTracker]"
  by (simp add: mountDemo_def Let_def intervalEffect_def)

lemma trace_grows:
  "\<exists>r. trace (measureEffect L s) = trace s @ r"
  "\<exists>r. trace (titleEffect s) = trace s @ r"
  "\<exists>r. trace (intervalEffect s) = trace s @ r"
  "\<exists>r. trace (trackerRerender L s) = trace s @ r"
  by (simp_all add: measureEffect_def titleEffect_def intervalEffect_def
      trackerRerender_closed Let_def)

lemma mount_effects_prefix:
  assumes "trace X = trace s @ rs"
  shows "take (length rs) (drop (length (trace s))
           (trace (if width (measureEffect L X) = width X
                   then intervalEffect (titleEffect (measureEffect L X))
                   else trackerRerender L (intervalEffect (titleEffect (measureEffect L X)))))) = rs"
proof -
  obtain r1 where r1: "trace (measureEffect L X) = trace X @ r1"
    using trace_grows(1) by blast
  obtain r2 where r2: "trace (titleEffect (measureEffect L X)) = trace (measureEffect L X) @ r2"
    using trace_grows(2) by blast
  obtain r3 where r3: "trace (intervalEffect (titleEffect (measureEffect L X))) =
      trace (titleEffect (measureEffect L X)) @ r3"
    using trace_grows(3) by blast
  obtain r4 where r4: "trace (trackerRerender L (intervalEffect (titleEffect (measureEffect L X)))) =
      trace (intervalEffect (titleEffect (measureEffect L X))) @ r4"
    using trace_grows(4) by blast
  show ?thesis
    by (simp only: r4 r3 r2 r1 assms if_distrib [of trace] append_assoc drop_append
        take_append length_append) simp
qed

lemma mountDemo_trace:
  "take 6 (drop (length (trace s)) (trace (mountDemo L s))) =
     [Render App, Render ThemeProvider, Render Consumer, Render ThemeToggle,
      Render DocumentTitleUpdater, Render DomChangeTracker]"
proof -
  have "take (length [Render App, Render ThemeProvider, Render Consumer, Render ThemeToggle,
      Render DocumentTitleUpdater, Render DomChangeTracker])
      (drop (length (trace s)) (trace (mountDemo L s))) =
     [Render App, Render ThemeProvider, Render Consumer, Render ThemeToggle,
      Render DocumentTitleUpdater, Render DomChangeTracker]"
    unfolding mountDemo_def Let_def
    by (rule mount_effects_prefix) (simp add: renderProvider_def)
  moreover have "length [Render App, Render ThemeProvider, Render Consumer, Render ThemeToggle,
      Render DocumentTitleUpdater, Render DomChangeTracker] = 6"
    by simp
  ultimately show ?thesis by (simp only:)
qed

lemma mountDemo_scripts:
  "filter script_event (trace (mountDemo L s)) = filter script_event (trace s)"
  "head_scripts (mountDemo L s) = head_scripts s"
  by (simp_all add: mountDemo_def Let_def intervalEffect_def)

lemma mountDemo_mounted: "appMounted (mountDemo L s) = appMounted s"
  by (simp add: mountDemo_def Let_def intervalEffect_def)

lemma scripts_after_mount:
  "filter script_event (trace (step L MountApp (initial t0))) = [AppendScript]"
  "head_scripts (step L MountApp (initial t0)) = 1"
  by (simp_all add: initial_def mountApp_def Let_def)

lemma unmount_scripts:
  "appMounted s \<Longrightarrow>
   filter script_event (trace (step L UnmountApp s)) = filter script_event (trace s) @ [RemoveScript]"
  "appMounted s \<Longrightarrow> head_scripts (step L UnmountApp s) = head_scripts s - 1"
  by (simp_all add: unmountApp_def Let_def intervalCleanup_def)

lemma clicks_mounted: "appMounted (run L (map Click cs) s) = appMounted s"
proof (induction cs arbitrary: s)
  case Nil
  show ?case by simp
next
  case (Cons b cs)
  have "appMounted (step L (Click b) s) = appMounted s"
    by (cases b) (simp_all add: handleFocus_def)
  with Cons.IH [of "step L (Click b) s"] show ?case by simp
qed

text \<open>
  Claim C6, as amended. Until the script has loaded, the tree is the root, the theme
  provider and the placeholder, and no demo component is mounted. When it loads, the
  consumer and the demo components mount, rendered in the order \<open>App\<close>, \<open>ThemeProvider\<close>,
  consumer, \<open>ThemeToggle\<close>, \<open>DocumentTitleUpdater\<close>, \<open>DomChangeTracker\<close>. Over a lifetime of
  the root, loaded or not, the script element is appended once and removed once, at
  unmount.
\<close>

theorem gating:
  "tree (run L (MountApp # map Click cs) (initial t0)) = [App, ThemeProvider, Loading]
   \<and> \<not> isTailwindLoaded (run L (MountApp # map Click cs) (initial t0))
   \<and> tree (run L (MountApp # map Click cs @ [ScriptLoaded]) (initial t0)) =
       [App, ThemeProvider, Consumer, ThemeToggle, DocumentTitleUpdater, DomChangeTracker]
   \<and> take 6 (drop (length (trace (run L (MountApp # map Click cs) (initial t0))))
         (trace (run L (MountApp # map Click cs @ [ScriptLoaded]) (initial t0)))) =
       [Render App, Render ThemeProvider, Render Consumer, Render ThemeToggle,
        Render DocumentTitleUpdater, Render DomChangeTracker]
   \<and> filter script_event (trace (run L
         (MountApp # map Click cs @ ScriptLoaded # map Click cs' @ [UnmountApp]) (initial t0))) =
       [AppendScript, RemoveScript]
   \<and> head_scripts (run L
         (MountApp # map Click cs @ ScriptLoaded # map Click cs' @ [UnmountApp]) (initial t0)) = 0
   \<and> filter script_event (trace (run L (MountApp # map Click cs @ [UnmountApp]) (initial t0))) =
       [AppendScript, RemoveScript]
   \<and> head_scripts (run L (MountApp # map Click cs @ [UnmountApp]) (initial t0)) = 0"
proof -
  let ?s1 = "step L MountApp (initial t0)"
  let ?s2 = "mountDemo L ?s1"
  let ?s3 = "run L (map Click cs') ?s2"
  have p: "placeholder_mounted ?s1" by (rule placeholder_after_mount)
  have e1: "run L (MountApp # map Click cs) (initial t0) = ?s1"
    using placeholder_clicks [OF p, of L cs] by simp
  have l: "step L ScriptLoaded ?s1 = ?s2"
    using p by (simp add: placeholder_mounted_def del: step.simps(1)) 
  have e2: "run L (MountApp # map Click cs @ [ScriptLoaded]) (initial t0) = ?s2"
    using placeholder_clicks [OF p, of L cs] l by (simp add: run_append del: step.simps)
  have e3: "run L (MountApp # map Click cs @ ScriptLoaded # map Click cs' @ [UnmountApp])
              (initial t0) = step L UnmountApp ?s3"
    using placeholder_clicks [OF p, of L cs] l by (simp add: run_append del: step.simps)
  have e4: "run L (MountApp # map Click cs @ [UnmountApp]) (initial t0) = step L UnmountApp ?s1"
    using placeholder_clicks [OF p, of L cs] by (simp add: run_append del: step.simps)
  have m1: "appMounted ?s1" using p by (simp add: placeholder_mounted_def)
  then have m3: "appMounted ?s3" by (simp only: clicks_mounted mountDemo_mounted)
  have a: "tree ?s1 = [App, ThemeProvider, Loading]" "\<not> isTailwindLoaded ?s1"
    using p by (simp_all add: placeholder_mounted_def)
  have b: "filter script_event (trace (step L UnmountApp ?s3)) = [AppendScript, RemoveScript]"
    by (simp only: unmount_scripts [OF m3] clicks_frame mountDemo_scripts scripts_after_mount)
      simp
  have c: "head_scripts (step L UnmountApp ?s3) = 0"
    by (simp only: unmount_scripts [OF m3] clicks_frame mountDemo_scripts scripts_after_mount)
  have d: "filter script_event (trace (step L UnmountApp ?s1)) = [AppendScript, RemoveScript]"
    by (simp only: unmount_scripts [OF m1] scripts_after_mount) simp
  have e: "head_scripts (step L UnmountApp ?s1) = 0"
    by (simp only: unmount_scripts [OF m1] scripts_after_mount)
  show ?thesis
    unfolding e1 e2 e3 e4 using a b c d e
    by (simp add: mountDemo_tree mountDemo_trace del: step.simps)
qed

theorem gating_witness:
  "tree (run layout800 [MountApp, Click IncrementButton] (initial '''')) =
     [App, ThemeProvider, Loading]
   \<and> filter script_event (trace (run layout800
        [MountApp, Click IncrementButton, ScriptLoaded, Click ToggleThemeButton, UnmountApp]
        (initial ''''))) = [AppendScript, RemoveScript]"
  using gating [of layout800 "[IncrementButton]" "''''" "[ToggleThemeButton]"]
  by (simp only: list.map append_Cons append_Nil)

text \<open>
  The claim as stated has the theme provider withheld until the script is ready. It is
  rendered and mounted by the first render of the root.
\<close>

theorem wrapper_mounts_before_ready_counterexample:
  "\<not> isTailwindLoaded (run layout800 [MountApp] (initial ''''))
   \<and> ThemeProvider \<in> set (tree (run layout800 [MountApp] (initial '''')))
   \<and> Render ThemeProvider \<in> set (trace (run layout800 [MountApp] (initial '''')))"
  by (simp add: initial_def mountApp_def Let_def renderProvider_def)

subsection \<open>Identities of the context value and the toggle closure\<close>

lemma erase_sel [simp]:
  "theme (erase s) = theme s"
  "appMounted (erase s) = appMounted s"
  "isTailwindLoaded (erase s) = isTailwindLoaded s"
  "tree (erase s) = tree s"
  "toggleRef (erase s) = 0"
  "contextValue (erase s) = 0"
  "fresh (erase s) = 0"
  "buttonRef (erase s) = buttonRef s"
  "focused (erase s) = focused s"
  "count (erase s) = count s"
  "customWidth (erase s) = customWidth s"
  "titleDeps (erase s) = titleDeps s"
  "boxRef (erase s) = boxRef s"
  "width (erase s) = width s"
  "layoutDeps (erase s) = layoutDeps s"
  "domClass (erase s) = domClass s"
  "head_scripts (erase s) = head_scripts s"
  "timers (erase s) = timers s"
  "title (erase s) = title s"
  "trace (erase s) = trace s"
  by (simp_all add: erase_def)

lemma erase_upd [simp]:
  "erase (s\<lparr>theme := x1\<rparr>) = (erase s)\<lparr>theme := x1\<rparr>"
  "erase (s\<lparr>appMounted := x2\<rparr>) = (erase s)\<lparr>appMounted := x2\<rparr>"
  "erase (s\<lparr>isTailwindLoaded := x3\<rparr>) = (erase s)\<lparr>isTailwindLoaded := x3\<rparr>"
  "erase (s\<lparr>tree := x4\<rparr>) = (erase s)\<lparr>tree := x4\<rparr>"
  "erase (s\<lparr>toggleRef := n1\<rparr>) = erase s"
  "erase (s\<lparr>contextValue := n2\<rparr>) = erase s"
  "erase (s\<lparr>fresh := n3\<rparr>) = erase s"
  "erase (s\<lparr>buttonRef := x5\<rparr>) = (erase s)\<lparr>buttonRef := x5\<rparr>"
  "erase (s\<lparr>focused := x6\<rparr>) = (erase s)\<lparr>focused := x6\<rparr>"
  "erase (s\<lparr>count := x7\<rparr>) = (erase s)\<lparr>count := x7\<rparr>"
  "erase (s\<lparr>customWidth := x8\<rparr>) = (erase s)\<lparr>customWidth := x8\<rparr>"
  "erase (s\<lparr>titleDeps := x9\<rparr>) = (erase s)\<lparr>titleDeps := x9\<rparr>"
  "erase (s\<lparr>boxRef := y1\<rparr>) = (erase s)\<lparr>boxRef := y1\<rparr>"
  "erase (s\<lparr>width := y2\<rparr>) = (erase s)\<lparr>width := y2\<rparr>"
  "erase (s\<lparr>layoutDeps := y3\<rparr>) = (erase s)\<lparr>layoutDeps := y3\<rparr>"
  "erase (s\<lparr>domClass := y4\<rparr>) = (erase s)\<lparr>domClass := y4\<rparr>"
  "erase (s\<lparr>head_scripts := y5\<rparr>) = (erase s)\<lparr>head_scripts := y5\<rparr>"
  "erase (s\<lparr>timers := y6\<rparr>) = (erase s)\<lparr>timers := y6\<rparr>"
  "erase (s\<lparr>title := y7\<rparr>) = (erase s)\<lparr>title := y7\<rparr>"
  "erase (s\<lparr>trace := y8\<rparr>) = (erase s)\<lparr>trace := y8\<rparr>"
  by (simp_all add: erase_def)

lemma erase_if: "erase (if c then a else b) = (if c then erase a else erase b)"
  by simp

lemma erase_measureEffect: "erase (measureEffect L s) = measureEffect L (erase s)"
  by (simp add: measureEffect_def)

lemma erase_titleEffect: "erase (titleEffect s) = titleEffect (erase s)"
  by (simp add: titleEffect_def)

lemma trackerDep_erase [simp]: "trackerDep L (erase s) = trackerDep L s"
  by (simp add: trackerDep_def)

lemma measureEffect_sel:
  "trace (measureEffect L s) = trace s @ (if boxRef s then [Measure (L (domClass s))] else [])"
  "width (measureEffect L s) = (if boxRef s then L (domClass s) else width s)"
  by (simp_all add: measureEffect_def)

lemma erase_trackerRerender: "erase (trackerRerender L s) = trackerRerender L (erase s)"
  by (simp add: trackerRerender_closed Let_def erase_if erase_measureEffect measureEffect_sel
      split del: if_split cong: if_cong)

lemma erase_commitUpdate: "erase (commitUpdate L rs s) = commitUpdate L rs (erase s)"
proof (cases "layoutDeps s = Some (trackerDep L s)")
  case True
  then show ?thesis
    by (simp add: commitUpdate_def Let_def erase_if erase_titleEffect
        split del: if_split cong: if_cong)
next
  case False
  then show ?thesis
    by (simp add: commitUpdate_def Let_def erase_if erase_measureEffect erase_titleEffect
        erase_trackerRerender measureEffect_sel split del: if_split cong: if_cong)
qed

lemma erase_renderProvider: "erase (renderProvider s) = erase (renderProvider (erase s))"
  by (simp add: renderProvider_def)

lemma erase_toggleTheme: "erase (toggleTheme s) = toggleTheme (erase s)"
  by (simp add: toggleTheme_def setTheme_def)

lemma erase_idem [simp]: "erase (erase s) = erase s"
  by (simp add: erase_def)

lemma erase_mountApp: "erase (mountApp s) = erase (mountApp (erase s))"
  by (simp add: mountApp_def Let_def renderProvider_def)

lemma erase_intervalEffect: "erase (intervalEffect s) = intervalEffect (erase s)"
  by (simp add: intervalEffect_def)

lemma erase_mountDemo: "erase (mountDemo L s) = erase (mountDemo L (erase s))"
  by (simp add: mountDemo_def Let_def renderProvider_def erase_if erase_measureEffect
      erase_titleEffect erase_intervalEffect erase_trackerRerender measureEffect_sel
      split del: if_split cong: if_cong)

lemma erase_unmountApp: "erase (unmountApp s) = unmountApp (erase s)"
  by (simp add: unmountApp_def Let_def intervalCleanup_def)

lemma erase_handleFocus: "erase (handleFocus s) = handleFocus (erase s)"
  by (simp add: handleFocus_def)

lemma erase_step: "erase (step L e s) = erase (step L e (erase s))"
proof (cases e)
  case MountApp
  then show ?thesis using erase_mountApp [of s] by simp
next
  case ScriptLoaded
  then show ?thesis using erase_mountDemo [of L s] by simp
next
  case (Click b)
  have "erase (renderProvider (toggleTheme s)) = erase (renderProvider (toggleTheme (erase s)))"
    by (simp add: renderProvider_def toggleTheme_def setTheme_def)
  with Click show ?thesis
    by (cases b) (simp_all add: erase_commitUpdate erase_handleFocus)
next
  case UnmountApp
  then show ?thesis by (simp add: erase_unmountApp)
qed

lemma ids_ok_initial: "ids_ok (initial t0)"
  by (simp add: ids_ok_def initial_def)

lemma mountDemo_ids:
  "toggleRef (mountDemo L s) = fresh s"
  "contextValue (mountDemo L s) = fresh s + 1"
  "fresh (mountDemo L s) = fresh s + 2"
  "theme (mountDemo L s) = theme s"
  by (simp_all add: mountDemo_def Let_def intervalEffect_def)

lemma mountApp_ids:
  "toggleRef (mountApp s) = fresh s"
  "contextValue (mountApp s) = fresh s + 1"
  "fresh (mountApp s) = fresh s + 2"
  "appMounted (mountApp s)"
  by (simp_all add: mountApp_def Let_def)

lemma unmountApp_ids:
  "toggleRef (unmountApp s) = toggleRef s"
  "contextValue (unmountApp s) = contextValue s"
  "fresh (unmountApp s) = fresh s"
  "theme (unmountApp s) = theme s"
  "\<not> appMounted (unmountApp s)"
  "tree (unmountApp s) = []"
  by (simp_all add: unmountApp_def Let_def intervalCleanup_def)

lemma ids_ok_step: "ids_ok s \<Longrightarrow> ids_ok (step L e s)"
proof (cases e)
  case MountApp
  assume "ids_ok s"
  then show ?thesis using MountApp by (simp add: ids_ok_def mountApp_ids)
next
  case ScriptLoaded
  assume "ids_ok s"
  then show ?thesis using ScriptLoaded
    by (simp add: ids_ok_def mountDemo_ids mountDemo_mounted mountDemo_tree)
next
  case (Click b)
  assume "ids_ok s"
  then show ?thesis using Click by (cases b) (auto simp add: ids_ok_def handleFocus_def)
next
  case UnmountApp
  assume "ids_ok s"
  then show ?thesis using UnmountApp by (auto simp add: ids_ok_def unmountApp_ids)
qed

lemma ids_ok_run: "ids_ok s \<Longrightarrow> ids_ok (run L es s)"
  by (induction es arbitrary: s) (simp_all add: ids_ok_step del: step.simps)

lemma theme_change_new_value:
  "ids_ok s \<Longrightarrow> theme (step L e s) \<noteq> theme s \<Longrightarrow>
   contextValue (step L e s) \<noteq> contextValue s"
proof (cases e)
  case MountApp
  assume "ids_ok s" "theme (step L e s) \<noteq> theme s"
  then show ?thesis using MountApp
    by (auto simp add: ids_ok_def mountApp_ids split: if_splits)
next
  case ScriptLoaded
  assume "ids_ok s" "theme (step L e s) \<noteq> theme s"
  then show ?thesis using ScriptLoaded
    by (auto simp add: ids_ok_def mountDemo_ids split: if_splits)
next
  case (Click b)
  assume "ids_ok s" "theme (step L e s) \<noteq> theme s"
  then show ?thesis using Click
    by (cases b) (auto simp add: ids_ok_def handleFocus_def split: if_splits)
next
  case UnmountApp
  assume "ids_ok s" "theme (step L e s) \<noteq> theme s"
  then show ?thesis using UnmountApp
    by (auto simp add: unmountApp_ids split: if_splits)
qed

lemma toggle_new_ids:
  "ids_ok s \<Longrightarrow> ThemeToggle \<in> set (tree s) \<Longrightarrow>
   toggleRef (step L (Click ToggleThemeButton) s) \<noteq> toggleRef s
   \<and> contextValue (step L (Click ToggleThemeButton) s) \<noteq> contextValue s"
  by (auto simp add: ids_ok_def)

lemma load_new_ids:
  "ids_ok s \<Longrightarrow> appMounted s \<Longrightarrow> \<not> isTailwindLoaded s \<Longrightarrow>
   toggleRef (step L ScriptLoaded s) \<noteq> toggleRef s
   \<and> contextValue (step L ScriptLoaded s) \<noteq> contextValue s"
  by (auto simp add: ids_ok_def mountDemo_ids)

lemma erase_run: "erase s = erase s' \<Longrightarrow> erase (run L es s) = erase (run L es s')"
proof (induction es arbitrary: s s')
  case Nil
  then show ?case by simp
next
  case (Cons e es)
  have "erase (step L e s) = erase (step L e (erase s))" by (rule erase_step)
  also have "\<dots> = erase (step L e (erase s'))" by (simp only: Cons.prems)
  also have "\<dots> = erase (step L e s')" by (rule erase_step [symmetric])
  finally have "erase (run L es (step L e s)) = erase (run L es (step L e s'))"
    by (rule Cons.IH)
  then show ?case by simp
qed

text \<open>
  Claim C7. In every reachable state: a toggle, and likewise the load of the script,
  makes the provider hand out a \<open>toggleTheme\<close> closure and a context value of new
  identity, so the reference is not stable; every step that changes the mode creates a
  new context value; and what the application does is the same whatever the identities
  are, so the consumers tolerate the churn.
\<close>

theorem toggle_identity_churn:
  "(ThemeToggle \<in> set (tree (run L es (initial t0))) \<longrightarrow>
      toggleRef (step L (Click ToggleThemeButton) (run L es (initial t0))) \<noteq>
        toggleRef (run L es (initial t0))
      \<and> contextValue (step L (Click ToggleThemeButton) (run L es (initial t0))) \<noteq>
        contextValue (run L es (initial t0)))
   \<and> (appMounted (run L es (initial t0)) \<and> \<not> isTailwindLoaded (run L es (initial t0)) \<longrightarrow>
      toggleRef (step L ScriptLoaded (run L es (initial t0))) \<noteq> toggleRef (run L es (initial t0)))
   \<and> (theme (step L e (run L es (initial t0))) \<noteq> theme (run L es (initial t0)) \<longrightarrow>
      contextValue (step L e (run L es (initial t0))) \<noteq> contextValue (run L es (initial t0)))
   \<and> (erase s = erase s' \<longrightarrow> erase (run L es' s) = erase (run L es' s'))"
proof -
  have ok: "ids_ok (run L es (initial t0))" using ids_ok_initial by (rule ids_ok_run)
  show ?thesis
    using toggle_new_ids [OF ok, of L] load_new_ids [OF ok, of L]
      theme_change_new_value [OF ok, of L e] erase_run [of s s' L es']
    by blast
qed

theorem toggle_identity_churn_witness:
  "ThemeToggle \<in> set (tree (run layout800 [MountApp, ScriptLoaded] (initial '''')))
   \<and> toggleRef (step layout800 (Click ToggleThemeButton)
         (run layout800 [MountApp, ScriptLoaded] (initial ''''))) \<noteq>
       toggleRef (run layout800 [MountApp, ScriptLoaded] (initial ''''))
   \<and> contextValue (step layout800 (Click ToggleThemeButton)
         (run layout800 [MountApp, ScriptLoaded] (initial ''''))) \<noteq>
       contextValue (run layout800 [MountApp, ScriptLoaded] (initial ''''))
   \<and> erase (run layout800 [MountApp, ScriptLoaded] (initial '''')) =
       erase ((run layout800 [MountApp, ScriptLoaded] (initial ''''))\<lparr>toggleRef := 7, fresh := 9\<rparr>)
   \<and> erase (run layout800 [Click ToggleThemeButton, Click IncrementButton]
         (run layout800 [MountApp, ScriptLoaded] (initial ''''))) =
       erase (run layout800 [Click ToggleThemeButton, Click IncrementButton]
         ((run layout800 [MountApp, ScriptLoaded] (initial ''''))\<lparr>toggleRef := 7, fresh := 9\<rparr>))"
proof -
  let ?s = "run layout800 [MountApp, ScriptLoaded] (initial '''')"
  let ?s' = "?s\<lparr>toggleRef := 7, fresh := 9\<rparr>"
  note T = toggle_identity_churn [of layout800 "[MountApp, ScriptLoaded]" "''''"
      "Click ToggleThemeButton" ?s ?s' "[Click ToggleThemeButton, Click IncrementButton]"]
  have 1: "ThemeToggle \<in> set (tree ?s)"
    using demo_mounted_after_load [of layout800 "''''"] by (simp add: demo_mounted_def)
  have 2: "erase ?s = erase ?s'" by (simp del: run.simps)
  from T have "ThemeToggle \<in> set (tree ?s) \<longrightarrow>
      toggleRef (step layout800 (Click ToggleThemeButton) ?s) \<noteq> toggleRef ?s
      \<and> contextValue (step layout800 (Click ToggleThemeButton) ?s) \<noteq> contextValue ?s"
    by (rule conjunct1)
  with 1 have 3: "toggleRef (step layout800 (Click ToggleThemeButton) ?s) \<noteq> toggleRef ?s
      \<and> contextValue (step layout800 (Click ToggleThemeButton) ?s) \<noteq> contextValue ?s"
    by (rule rev_mp)
  from T [THEN conjunct2, THEN conjunct2, THEN conjunct2] have "erase ?s = erase ?s' \<longrightarrow>
      erase (run layout800 [Click ToggleThemeButton, Click IncrementButton] ?s) =
      erase (run layout800 [Click ToggleThemeButton, Click IncrementButton] ?s')" .
  with 2 have 4: "erase (run layout800 [Click ToggleThemeButton, Click IncrementButton] ?s) =
      erase (run layout800 [Click ToggleThemeButton, Click IncrementButton] ?s')"
    by (rule rev_mp)
  show ?thesis by (intro conjI 1 2 4 conjunct1 [OF 3] conjunct2 [OF 3])
qed

section \<open>Scaffolding script: properties\<close>



lemma echo_simps [simp]:
  "files (echo l s) = files s"
  "dirs (echo l s) = dirs s"
  "stdout (echo l s) = stdout s @ [l]"
  by (simp_all add: echo_def)

lemma mkdir_p_simps [simp]:
  "files (mkdir_p d s) = files s"
  "stdout (mkdir_p d s) = stdout s"
  "x \<in> dirs (mkdir_p d s) \<longleftrightarrow> x \<in> dirs s \<or> (x = d \<and> files s d = None)"
  by (auto simp add: mkdir_p_def)

lemma cat_heredoc_simps [simp]:
  "dirs (cat_heredoc p b s) = dirs s"
  "stdout (cat_heredoc p b s) = stdout s"
  "files (cat_heredoc p b s) q =
     (if q = p \<and> can_redirect p s then Some (lines_nl b) else files s q)"
  by (simp_all add: cat_heredoc_def)

lemma sed_i_insert_simps [simp]:
  "dirs (sed_i_insert fl ins p s) = dirs s"
  "stdout (sed_i_insert fl ins p s) = stdout s"
  "q \<noteq> p \<Longrightarrow> files (sed_i_insert fl ins p s) q = files s q"
  by (simp_all add: sed_i_insert_def split: option.splits sed.splits)


























end
